theory Spec2Isabelle
  imports Complex_Main
begin

section \<open>Position lifecycle of the trading engine (trading1212.js)\<close>

text \<open>
  A shallow embedding of the position lifecycle of \<^verbatim>\<open>src/trading1212.js\<close>: opening
  (\<^verbatim>\<open>placeSpotTrade\<close>, \<^verbatim>\<open>placeFutureTrade\<close>), monitoring (the loop body of
  \<^verbatim>\<open>monitorActiveTrades\<close>), settlement (\<^verbatim>\<open>handleTradeClosure\<close>) and the probability
  computation (\<^verbatim>\<open>calculateProbability\<close> and the session dampening of \<^verbatim>\<open>checkPrices\<close>).

  Modelling decisions:
  \<^item> \<^verbatim>\<open>Decimal\<close> values are exact rationals (\<open>rat\<close>); the rounding of decimal.js to 20
    significant digits and the sign of zero are not modelled.
  \<^item> The module's global variables are the fields of the record \<open>state\<close>; every
    function takes the state and returns the new one.
  \<^item> Strings compared by the source (\<^verbatim>\<open>type\<close>, \<^verbatim>\<open>direction\<close>, \<^verbatim>\<open>allocation\<close>) stay
    strings, so that every value the source can receive is an input of the model.
  \<^item> A field \<^verbatim>\<open>trade.x\<close> of a trade object is the selector \<open>trade_x\<close>.
  \<^item> The exchange, the database, the clock and the random trade identifiers are the
    record \<open>env\<close>: what a fee lookup returns, whether the n-th order submission and
    the n-th database write are accepted, and which identifier the n-th call of
    \<^verbatim>\<open>generateTradeId\<close> returns.
  \<^item> Every exception of the source is caught by the \<^verbatim>\<open>try/catch\<close> of the function
    that raised it and logged; the model takes the same branch and appends the event
    to \<open>log\<close>.
\<close>

subsection \<open>Data model\<close>

record trade =
  trade_id :: nat
  trade_entryPrice :: rat
  trade_amount :: rat
  trade_stopLoss :: rat
  trade_takeProfit :: rat
  trade_peakProfit :: rat
  trade_peakPrice :: rat
  trade_type :: string
  trade_tradeMode :: string
  trade_direction :: string
  trade_startTime :: int
  trade_leverage :: rat
  trade_feeRate :: rat
  trade_entryFee :: rat
  trade_allocation :: string
  trade_isReallocated :: bool

text \<open>A market order handed to the exchange client: \<^verbatim>\<open>binance.order\<close> or
  \<^verbatim>\<open>binance.futuresOrder\<close>, with its side and quantity.\<close>

datatype order = SpotOrder string rat | FuturesOrder string rat

text \<open>The document written by \<^verbatim>\<open>Trade.create\<close> at settlement.\<close>

record tradeRecord =
  rec_id :: nat
  rec_entryPrice :: rat
  rec_amount :: rat
  rec_stopLoss :: rat
  rec_takeProfit :: rat
  rec_direction :: string
  rec_type :: string
  rec_outcome :: string
  rec_netPnl :: rat
  rec_allocation :: string
  rec_isReallocated :: bool

text \<open>The log lines that tell the branches of the lifecycle apart.\<close>

datatype event =
    InsufficientBalance string
  | ErrorPlacingSpotTrade
  | ErrorPlacingFuturesTrade
  | TakeProfitReached nat
  | StopLossHit nat
  | Reallocating nat
  | ErrorHandlingTradeClosure
  | ErrorMonitoringTrade nat
  | TradeStatus rat
  | FinalizeTrade
  | ProbabilityReduced

record state =
  fakeBalance :: rat
  realBalance :: rat
  walletBalance :: rat
  fakePnL :: rat
  realPnL :: rat
  spotPnL :: rat
  startTime :: int
  activeTrades :: "trade list"
  cumulativeProbabilityChange :: rat
  orders :: "order list"
  history :: "tradeRecord list"
  dbAttempts :: nat
  idsGenerated :: nat
  log :: "event list"

record feeRates =
  makerFee :: rat
  takerFee :: rat

record env =
  spotFees :: "feeRates option"
  futuresFees :: "feeRates option"
  orderAccepted :: "nat \<Rightarrow> bool"
  dbAccepted :: "nat \<Rightarrow> bool"
  tradeIds :: "nat \<Rightarrow> nat"
  now :: int

subsection \<open>Trading parameters\<close>

definition stopLossPercentage :: rat where
  "stopLossPercentage = 3 / 2"

definition takeProfitPercentage :: rat where
  "takeProfitPercentage = 6"

definition defaultBaseProbability :: rat where
  "defaultBaseProbability = 75"

definition maxSpotDrawdownPercentage :: rat where
  "maxSpotDrawdownPercentage = 2"

definition leverage :: rat where
  "leverage = 5"

subsection \<open>External calls\<close>

definition logEvent :: "event \<Rightarrow> state \<Rightarrow> state" where
  "logEvent e st = st\<lparr>log := log st @ [e]\<rparr>"

text \<open>\<^verbatim>\<open>retryOperation(operation, retries = 3)\<close>: the operation is tried; when it fails
  and \<^verbatim>\<open>retries <= 0\<close> the error is rethrown, otherwise it is tried again with one
  retry less. \<open>operation n\<close> tells whether the attempt with running number \<open>n\<close>
  succeeds; the result is the success and the running number after the last attempt.\<close>

fun retryOperation :: "(nat \<Rightarrow> bool) \<Rightarrow> nat \<Rightarrow> nat \<Rightarrow> bool \<times> nat" where
  "retryOperation operation 0 n = (operation n, Suc n)"
| "retryOperation operation (Suc retries) n =
     (if operation n then (True, Suc n) else retryOperation operation retries (Suc n))"

text \<open>Both fee lookups catch their own failure and fall back to default rates.\<close>

definition getSpotTradingFee :: "env \<Rightarrow> feeRates" where
  "getSpotTradingFee env =
     (case spotFees env of
        Some fees \<Rightarrow> fees
      | None \<Rightarrow> \<lparr>makerFee = 1 / 1000, takerFee = 1 / 1000\<rparr>)"

definition getFuturesTradingFee :: "env \<Rightarrow> feeRates" where
  "getFuturesTradingFee env =
     (case futuresFees env of
        Some fees \<Rightarrow> fees
      | None \<Rightarrow> \<lparr>makerFee = 2 / 10000, takerFee = 4 / 10000\<rparr>)"

text \<open>The order submission wrapped in \<^verbatim>\<open>retryOperation\<close>: every attempt hands the order
  to the exchange client, so every attempt is appended to \<open>orders\<close>; the running
  number of an attempt is the number of orders handed over before it.\<close>

definition submitOrder :: "env \<Rightarrow> order \<Rightarrow> state \<Rightarrow> bool \<times> state" where
  "submitOrder env ord st =
     (let (ok, n) = retryOperation (orderAccepted env) 3 (length (orders st))
      in (ok, st\<lparr>orders := orders st @ replicate (n - length (orders st)) ord\<rparr>))"

definition generateTradeId :: "env \<Rightarrow> state \<Rightarrow> nat" where
  "generateTradeId env st = tradeIds env (idsGenerated st)"

subsection \<open>Opening a position\<close>

definition placeSpotTrade :: "env \<Rightarrow> rat \<Rightarrow> rat \<Rightarrow> string \<Rightarrow> string \<Rightarrow> state \<Rightarrow> state" where
  "placeSpotTrade env entryPrice amount type direction st =
     (let feeRate = takerFee (getSpotTradingFee env);
          entryFee = entryPrice * amount * feeRate;
          totalCost = entryPrice * amount + entryFee;
          balance = (if type = ''real'' then realBalance st else fakeBalance st)
      in if totalCost > balance then logEvent (InsufficientBalance type) st
         else
           let st1 = (if type = ''real''
                      then st\<lparr>realBalance := realBalance st - totalCost\<rparr>
                      else st\<lparr>fakeBalance := fakeBalance st - totalCost\<rparr>);
               st2 = st1\<lparr>walletBalance := walletBalance st1 - amount\<rparr>;
               stopLoss = entryPrice * (1 - stopLossPercentage / 100);
               takeProfit = entryPrice * (1 + takeProfitPercentage / 100);
               side = (if direction = ''long'' then ''BUY'' else ''SELL'');
               (ok, st3) = submitOrder env (SpotOrder side amount) st2
           in if \<not> ok then logEvent ErrorPlacingSpotTrade st3
              else
                let trade = \<lparr>trade_id = generateTradeId env st3,
                             trade_entryPrice = entryPrice,
                             trade_amount = amount,
                             trade_stopLoss = stopLoss,
                             trade_takeProfit = takeProfit,
                             trade_peakProfit = 0,
                             trade_peakPrice = entryPrice,
                             trade_type = type,
                             trade_tradeMode = type,
                             trade_direction = (if direction = ''long'' then ''long'' else ''short''),
                             trade_startTime = now env,
                             trade_leverage = 1,
                             trade_feeRate = feeRate,
                             trade_entryFee = entryFee,
                             trade_allocation = ''favorable'',
                             trade_isReallocated = False\<rparr>
                in st3\<lparr>activeTrades := activeTrades st3 @ [trade],
                       idsGenerated := Suc (idsGenerated st3)\<rparr>)"

definition placeFutureTrade ::
  "env \<Rightarrow> rat \<Rightarrow> rat \<Rightarrow> string \<Rightarrow> string \<Rightarrow> string \<Rightarrow> state \<Rightarrow> state" where
  "placeFutureTrade env entryPrice amount direction type allocation st =
     (let feeRates = (if type = ''futures'' then getFuturesTradingFee env
                      else getSpotTradingFee env);
          feeRate = takerFee feeRates;
          entryFee = entryPrice * amount * feeRate;
          initialMargin = (if type = ''futures'' then entryPrice * amount / leverage else 0);
          balance = (if type = ''real'' then realBalance st else fakeBalance st);
          totalCost = (if type = ''futures'' then initialMargin + entryFee
                       else entryPrice * amount + entryFee)
      in if totalCost > balance then logEvent (InsufficientBalance type) st
         else
           let st1 = (if type = ''real''
                      then st\<lparr>realBalance := realBalance st - totalCost\<rparr>
                      else st\<lparr>fakeBalance := fakeBalance st - totalCost\<rparr>);
               stopLoss = (if direction = ''long''
                           then entryPrice * (1 - stopLossPercentage / 100)
                           else entryPrice * (1 + stopLossPercentage / 100));
               takeProfit = (if direction = ''long''
                             then entryPrice * (1 + takeProfitPercentage / 100)
                             else entryPrice * (1 - takeProfitPercentage / 100));
               orderSide = (if direction = ''long'' then ''BUY'' else ''SELL'');
               (ok, st2) = submitOrder env (FuturesOrder orderSide amount) st1
           in if \<not> ok then logEvent ErrorPlacingFuturesTrade st2
              else
                let tradeObj = \<lparr>trade_id = generateTradeId env st2,
                                trade_entryPrice = entryPrice,
                                trade_amount = amount,
                                trade_stopLoss = stopLoss,
                                trade_takeProfit = takeProfit,
                                trade_peakProfit = 0,
                                trade_peakPrice = entryPrice,
                                trade_type = type,
                                trade_tradeMode = type,
                                trade_direction = (if direction = ''long'' then ''long'' else ''short''),
                                trade_startTime = now env,
                                trade_leverage = (if type = ''futures'' then leverage else 1),
                                trade_feeRate = feeRate,
                                trade_entryFee = entryFee,
                                trade_allocation = allocation,
                                trade_isReallocated = False\<rparr>
                in st2\<lparr>activeTrades := activeTrades st2 @ [tradeObj],
                       idsGenerated := Suc (idsGenerated st2)\<rparr>)"

subsection \<open>Settlement\<close>

text \<open>The profit of a position at a price, as both the monitor and the settlement
  compute it. In the monitor the factor is \<^verbatim>\<open>trade.leverage || 1\<close>; a \<^verbatim>\<open>Decimal\<close> object
  is never falsy, so the factor is the position's own leverage.\<close>

definition grossPnl :: "trade \<Rightarrow> rat \<Rightarrow> rat" where
  "grossPnl trade currentPrice =
     (if trade_direction trade = ''long''
      then (currentPrice - trade_entryPrice trade) * trade_amount trade * trade_leverage trade
      else (trade_entryPrice trade - currentPrice) * trade_amount trade * trade_leverage trade)"

definition exitFee :: "env \<Rightarrow> trade \<Rightarrow> rat \<Rightarrow> rat" where
  "exitFee env trade currentPrice =
     (let feeRates = (if trade_type trade = ''spot'' then getSpotTradingFee env
                      else getFuturesTradingFee env)
      in currentPrice * trade_amount trade * takerFee feeRates)"

definition netPnl :: "env \<Rightarrow> trade \<Rightarrow> rat \<Rightarrow> rat" where
  "netPnl env trade currentPrice =
     grossPnl trade currentPrice - trade_entryFee trade - exitFee env trade currentPrice"

text \<open>The reallocation step of \<^verbatim>\<open>handleTradeClosure\<close>: the condition, the call of
  \<^verbatim>\<open>placeFutureTrade\<close>, and the flag set on the closed object (the element at index
  \<open>i\<close> of the active list; \<^verbatim>\<open>placeFutureTrade\<close> only appends to that list).\<close>

definition reallocate :: "env \<Rightarrow> nat \<Rightarrow> rat \<Rightarrow> state \<Rightarrow> state" where
  "reallocate env i currentPrice st =
     (let trade = activeTrades st ! i;
          isUnfavorable = (trade_allocation trade = ''unfavorable'')
      in if netPnl env trade currentPrice < 0 \<and> isUnfavorable \<and> \<not> trade_isReallocated trade
         then
           let reallocateAmount = trade_amount trade;
               st1 = logEvent (Reallocating (trade_id trade)) st;
               newDirection = (if trade_direction trade = ''long'' then ''short'' else ''long'');
               st2 = placeFutureTrade env currentPrice reallocateAmount newDirection
                       (trade_type trade) ''favorable'' st1
           in st2\<lparr>activeTrades := (activeTrades st2)[i := trade\<lparr>trade_isReallocated := True\<rparr>]\<rparr>
         else st)"

text \<open>The ledger update of \<^verbatim>\<open>handleTradeClosure\<close>, keyed on \<^verbatim>\<open>trade.type\<close>.\<close>

definition updateLedgers :: "trade \<Rightarrow> rat \<Rightarrow> state \<Rightarrow> state" where
  "updateLedgers trade pnl st =
     (if trade_type trade = ''fake''
      then st\<lparr>fakeBalance := fakeBalance st + pnl + trade_amount trade,
              fakePnL := fakePnL st + pnl\<rparr>
      else if trade_type trade = ''real''
      then st\<lparr>realBalance := realBalance st + pnl + trade_amount trade,
              realPnL := realPnL st + pnl\<rparr>
      else
        let st1 = st\<lparr>spotPnL := spotPnL st + pnl,
                     walletBalance := walletBalance st + trade_amount trade\<rparr>
        in if trade_type trade = ''real''
           then st1\<lparr>realBalance := realBalance st1 + trade_entryPrice trade * trade_amount trade\<rparr>
           else st1\<lparr>fakeBalance := fakeBalance st1 + trade_entryPrice trade * trade_amount trade\<rparr>)"

definition settledRecord :: "trade \<Rightarrow> rat \<Rightarrow> tradeRecord" where
  "settledRecord trade pnl =
     \<lparr>rec_id = trade_id trade,
      rec_entryPrice = trade_entryPrice trade,
      rec_amount = trade_amount trade,
      rec_stopLoss = trade_stopLoss trade,
      rec_takeProfit = trade_takeProfit trade,
      rec_direction = trade_direction trade,
      rec_type = trade_type trade,
      rec_outcome = (if pnl \<ge> 0 then ''win'' else ''loss''),
      rec_netPnl = pnl,
      rec_allocation = trade_allocation trade,
      rec_isReallocated = trade_isReallocated trade\<rparr>"

text \<open>\<^verbatim>\<open>handleTradeClosure(trade, currentPrice)\<close>, for the trade object at index \<open>i\<close> of
  the active list (the monitor only passes objects of that list). The write of the
  trade record is the one call that can throw here: the \<^verbatim>\<open>catch\<close> then logs, and
  neither the ledgers nor the active list are touched after it.\<close>

definition handleTradeClosure :: "env \<Rightarrow> nat \<Rightarrow> rat \<Rightarrow> state \<Rightarrow> state" where
  "handleTradeClosure env i currentPrice st =
     (if i \<ge> length (activeTrades st) then st
      else
        let pnl = netPnl env (activeTrades st ! i) currentPrice;
            st1 = reallocate env i currentPrice st;
            trade = activeTrades st1 ! i;
            (ok, n) = retryOperation (dbAccepted env) 3 (dbAttempts st1);
            st2 = st1\<lparr>dbAttempts := n\<rparr>
        in if \<not> ok then logEvent ErrorHandlingTradeClosure st2
           else
             let st3 = st2\<lparr>history := history st2 @ [settledRecord trade pnl]\<rparr>;
                 st4 = updateLedgers trade pnl st3;
                 st5 = st4\<lparr>activeTrades :=
                             filter (\<lambda>t. trade_id t \<noteq> trade_id trade) (activeTrades st4)\<rparr>
             in if length (activeTrades st5) = 0 then logEvent FinalizeTrade st5 else st5)"

subsection \<open>Monitoring\<close>

definition updatePeak :: "rat \<Rightarrow> trade \<Rightarrow> trade" where
  "updatePeak currentPrice trade =
     (let currentProfit = grossPnl trade currentPrice
      in if currentProfit > trade_peakProfit trade
         then trade\<lparr>trade_peakProfit := currentProfit, trade_peakPrice := currentPrice\<rparr>
         else trade)"

definition maxDrawdownPrice :: "trade \<Rightarrow> rat" where
  "maxDrawdownPrice trade =
     (let allowedDrawdown = trade_peakPrice trade * maxSpotDrawdownPercentage / 100
      in if trade_direction trade = ''long''
         then trade_peakPrice trade - allowedDrawdown
         else trade_peakPrice trade + allowedDrawdown)"

definition takeProfitReached :: "trade \<Rightarrow> rat \<Rightarrow> bool" where
  "takeProfitReached trade currentPrice =
     ((trade_direction trade = ''long'' \<and> currentPrice \<ge> trade_takeProfit trade) \<or>
      (trade_direction trade = ''short'' \<and> currentPrice \<le> trade_takeProfit trade))"

definition stopLossHit :: "trade \<Rightarrow> rat \<Rightarrow> bool" where
  "stopLossHit trade currentPrice =
     ((trade_direction trade = ''long'' \<and>
         (currentPrice \<le> maxDrawdownPrice trade \<or> currentPrice \<le> trade_stopLoss trade)) \<or>
      (trade_direction trade = ''short'' \<and>
         (currentPrice \<ge> maxDrawdownPrice trade \<or> currentPrice \<ge> trade_stopLoss trade)))"

text \<open>The body of the loop of \<^verbatim>\<open>monitorActiveTrades\<close> for the trade object at index
  \<open>i\<close>. The price is \<open>None\<close> when \<^verbatim>\<open>getAvaxPrice\<close> throws; the inner \<^verbatim>\<open>catch\<close> logs
  and the loop goes on to the next trade. The object is addressed by its index in the
  active list: the loop meets an object outside that list only when an object settled
  earlier in the same pass carried the same identifier, a case this model leaves out.\<close>

definition monitorTrade :: "env \<Rightarrow> nat \<Rightarrow> rat option \<Rightarrow> state \<Rightarrow> state" where
  "monitorTrade env i price st =
     (if i \<ge> length (activeTrades st) then st
      else
        case price of
          None \<Rightarrow> logEvent (ErrorMonitoringTrade (trade_id (activeTrades st ! i))) st
        | Some currentPrice \<Rightarrow>
            let trade = updatePeak currentPrice (activeTrades st ! i);
                st1 = st\<lparr>activeTrades := (activeTrades st)[i := trade]\<rparr>
            in if takeProfitReached trade currentPrice
               then handleTradeClosure env i currentPrice
                      (logEvent (TakeProfitReached (trade_id trade)) st1)
               else
                 let st2 = (if stopLossHit trade currentPrice
                            then handleTradeClosure env i currentPrice
                                   (logEvent (StopLossHit (trade_id trade)) st1)
                            else st1)
                 in logEvent (TradeStatus currentPrice) st2)"

text \<open>A position observed over successive ticks: the loop body is run on the object at
  index \<open>i\<close> once per observed price, and the object is recorded after each tick, until
  the tick that settles it (the trade record is written and the object leaves the
  active list).\<close>

definition settledIn :: "state \<Rightarrow> state \<Rightarrow> bool" where
  "settledIn st st' = (length (history st) < length (history st'))"

fun monitorTicks :: "env \<Rightarrow> nat \<Rightarrow> rat option list \<Rightarrow> state \<Rightarrow> trade list" where
  "monitorTicks env i [] st = []"
| "monitorTicks env i (price # prices) st =
     (let st' = monitorTrade env i price st
      in if settledIn st st' then []
         else (activeTrades st' ! i) # monitorTicks env i prices st')"

subsection \<open>Probability\<close>

record macdValue =
  macd_histogram :: rat

record stochasticValue =
  stochastic_k :: rat
  stochastic_d :: rat

record bollingerValue =
  bollinger_price :: rat
  bollinger_lower :: rat
  bollinger_upper :: rat

definition calculateProbability ::
  "rat \<Rightarrow> macdValue \<Rightarrow> rat \<Rightarrow> rat \<Rightarrow> stochasticValue \<Rightarrow> rat \<Rightarrow> bollingerValue \<Rightarrow> rat \<Rightarrow> rat" where
  "calculateProbability rsi macd sma ema stochastic atr bollinger baseProbability =
     (let p0 = baseProbability;
          p1 = (if rsi < 30 then p0 + 10 else if rsi > 70 then p0 - 10 else p0);
          p2 = (if macd_histogram macd > 0 then p1 + 5
                else if macd_histogram macd < 0 then p1 - 5 else p1);
          p3 = (if sma > ema then p2 + 5 else p2 - 5);
          p4 = (if stochastic_k stochastic < 20 \<and> stochastic_d stochastic < 20 then p3 + 10
                else if stochastic_k stochastic > 80 \<and> stochastic_d stochastic > 80 then p3 - 10
                else p3);
          p5 = (if atr > 1 / 2 then p4 - 5 else p4);
          p6 = (if bollinger_price bollinger < bollinger_lower bollinger then p5 + 5
                else if bollinger_price bollinger > bollinger_upper bollinger then p5 - 5
                else p5);
          p7 = (if p6 < 0 then 0 else p6);
          p8 = (if p7 > 100 then 100 else p7)
      in p8)"

text \<open>The session dampening of \<^verbatim>\<open>checkPrices\<close>, between the call of
  \<^verbatim>\<open>calculateProbability\<close> and the acceptance test: the new state and the adjusted
  probability. \<^verbatim>\<open>Date.now()\<close> is \<open>now env\<close>, in milliseconds.\<close>

definition dampenProbability :: "env \<Rightarrow> rat \<Rightarrow> rat \<Rightarrow> state \<Rightarrow> rat \<times> state" where
  "dampenProbability env probability dynamicBaseProbability st =
     (let timeElapsed = rat_of_int (now env - startTime st) / 1000;
          st1 = (if timeElapsed \<ge> 900
                 then st\<lparr>cumulativeProbabilityChange := 0, startTime := now env\<rparr>
                 else st\<lparr>cumulativeProbabilityChange :=
                           cumulativeProbabilityChange st + \<bar>probability - dynamicBaseProbability\<bar>\<rparr>)
      in if cumulativeProbabilityChange st1 > 20
         then (probability - 5, logEvent ProbabilityReduced st1)
         else (probability, st1))"

text \<open>The probability that \<^verbatim>\<open>checkPrices\<close> tests against the band from 70 to 80.\<close>

definition adjustedProbability ::
  "env \<Rightarrow> rat \<Rightarrow> macdValue \<Rightarrow> rat \<Rightarrow> rat \<Rightarrow> stochasticValue \<Rightarrow> rat \<Rightarrow> bollingerValue \<Rightarrow> rat
     \<Rightarrow> state \<Rightarrow> rat" where
  "adjustedProbability env rsi macd sma ema stochastic atr bollinger dynamicBaseProbability st =
     fst (dampenProbability env
            (calculateProbability rsi macd sma ema stochastic atr bollinger dynamicBaseProbability)
            dynamicBaseProbability st)"

subsection \<open>Quantities named by the theorems\<close>

text \<open>The ledger an open is checked against and debited from, and the total cost each
  opening function compares with it.\<close>

definition selectedBalance :: "string \<Rightarrow> state \<Rightarrow> rat" where
  "selectedBalance type st = (if type = ''real'' then realBalance st else fakeBalance st)"

definition spotTotalCost :: "env \<Rightarrow> rat \<Rightarrow> rat \<Rightarrow> rat" where
  "spotTotalCost env entryPrice amount =
     entryPrice * amount + entryPrice * amount * takerFee (getSpotTradingFee env)"

definition futureTotalCost :: "env \<Rightarrow> rat \<Rightarrow> rat \<Rightarrow> string \<Rightarrow> rat" where
  "futureTotalCost env entryPrice amount type =
     (if type = ''futures''
      then entryPrice * amount / leverage
             + entryPrice * amount * takerFee (getFuturesTradingFee env)
      else entryPrice * amount + entryPrice * amount * takerFee (getSpotTradingFee env))"

text \<open>Whether the next order submission succeeds within its four attempts, how many
  attempts it takes, and whether the next write of a trade record succeeds.\<close>

definition orderOk :: "env \<Rightarrow> state \<Rightarrow> bool" where
  "orderOk env st = fst (retryOperation (orderAccepted env) 3 (length (orders st)))"

definition orderAttempts :: "env \<Rightarrow> state \<Rightarrow> nat" where
  "orderAttempts env st =
     snd (retryOperation (orderAccepted env) 3 (length (orders st))) - length (orders st)"

definition dbOk :: "env \<Rightarrow> state \<Rightarrow> bool" where
  "dbOk env st = fst (retryOperation (dbAccepted env) 3 (dbAttempts st))"

text \<open>The condition under which \<^verbatim>\<open>handleTradeClosure\<close> reallocates.\<close>

definition reallocationDue :: "env \<Rightarrow> trade \<Rightarrow> rat \<Rightarrow> bool" where
  "reallocationDue env trade currentPrice =
     (netPnl env trade currentPrice < 0 \<and> trade_allocation trade = ''unfavorable'' \<and>
      \<not> trade_isReallocated trade)"

text \<open>The trade object that \<^verbatim>\<open>placeFutureTrade\<close> registers when it gets that far, the
  condition under which it does, and the direction a reallocation trades in.\<close>

definition openedFutureTrade ::
  "env \<Rightarrow> rat \<Rightarrow> rat \<Rightarrow> string \<Rightarrow> string \<Rightarrow> string \<Rightarrow> state \<Rightarrow> trade" where
  "openedFutureTrade env entryPrice amount direction type allocation st =
     \<lparr>trade_id = tradeIds env (idsGenerated st),
      trade_entryPrice = entryPrice,
      trade_amount = amount,
      trade_stopLoss = (if direction = ''long''
                        then entryPrice * (1 - stopLossPercentage / 100)
                        else entryPrice * (1 + stopLossPercentage / 100)),
      trade_takeProfit = (if direction = ''long''
                          then entryPrice * (1 + takeProfitPercentage / 100)
                          else entryPrice * (1 - takeProfitPercentage / 100)),
      trade_peakProfit = 0,
      trade_peakPrice = entryPrice,
      trade_type = type,
      trade_tradeMode = type,
      trade_direction = (if direction = ''long'' then ''long'' else ''short''),
      trade_startTime = now env,
      trade_leverage = (if type = ''futures'' then leverage else 1),
      trade_feeRate = takerFee (if type = ''futures'' then getFuturesTradingFee env
                                else getSpotTradingFee env),
      trade_entryFee = entryPrice * amount *
                         takerFee (if type = ''futures'' then getFuturesTradingFee env
                                   else getSpotTradingFee env),
      trade_allocation = allocation,
      trade_isReallocated = False\<rparr>"

definition futureOpens :: "env \<Rightarrow> rat \<Rightarrow> rat \<Rightarrow> string \<Rightarrow> state \<Rightarrow> bool" where
  "futureOpens env entryPrice amount type st =
     (futureTotalCost env entryPrice amount type \<le> selectedBalance type st \<and> orderOk env st)"

definition oppositeDirection :: "trade \<Rightarrow> string" where
  "oppositeDirection trade = (if trade_direction trade = ''long'' then ''short'' else ''long'')"

text \<open>One step of the peak ratchet, from the position before a tick to the position after
  it: the peak profit does not fall, and the peak price moves only with a strictly higher
  peak profit.\<close>

definition ratchetStep :: "trade \<Rightarrow> trade \<Rightarrow> bool" where
  "ratchetStep a b =
     (trade_peakProfit a \<le> trade_peakProfit b \<and>
      (trade_peakPrice b \<noteq> trade_peakPrice a \<longrightarrow> trade_peakProfit a < trade_peakProfit b))"

subsection \<open>Concrete inputs\<close>

text \<open>An exchange without fees that accepts every order and a database that accepts
  every write; the same exchange refusing every order; and a session with 1000 on every
  ledger and no open position.\<close>

definition exampleEnv :: env where
  "exampleEnv = \<lparr>spotFees = Some \<lparr>makerFee = 0, takerFee = 0\<rparr>,
                 futuresFees = Some \<lparr>makerFee = 0, takerFee = 0\<rparr>,
                 orderAccepted = (\<lambda>n. True), dbAccepted = (\<lambda>n. True),
                 tradeIds = (\<lambda>n. n), now = 0\<rparr>"

definition failingEnv :: env where
  "failingEnv = exampleEnv\<lparr>orderAccepted := (\<lambda>n. False)\<rparr>"

definition exampleState :: state where
  "exampleState = \<lparr>fakeBalance = 1000, realBalance = 1000, walletBalance = 1000,
                   fakePnL = 0, realPnL = 0, spotPnL = 0, startTime = 0, activeTrades = [],
                   cumulativeProbabilityChange = 0, orders = [], history = [],
                   dbAttempts = 0, idsGenerated = 0, log = []\<rparr>"


definition shortOpened :: state where
  "shortOpened = placeFutureTrade exampleEnv 100 1 ''short'' ''fake'' ''unfavorable'' exampleState"

definition longOpened :: state where
  "longOpened = placeFutureTrade exampleEnv 100 1 ''long'' ''fake'' ''favorable'' exampleState"


text \<open>An indicator snapshot in which no indicator but the SMA/EMA comparison moves the
  probability.\<close>

definition neutralMacd :: macdValue where
  "neutralMacd = \<lparr>macd_histogram = 0\<rparr>"

definition neutralStochastic :: stochasticValue where
  "neutralStochastic = \<lparr>stochastic_k = 50, stochastic_d = 50\<rparr>"

definition neutralBollinger :: bollingerValue where
  "neutralBollinger = \<lparr>bollinger_price = 100, bollinger_lower = 90, bollinger_upper = 110\<rparr>"

section \<open>Properties\<close>

subsection \<open>Retries and order submission\<close>

lemma retryOperation_3:
  "retryOperation operation 3 n =
     (if operation n then (True, n + 1)
      else if operation (n + 1) then (True, n + 2)
      else if operation (n + 2) then (True, n + 3)
      else (operation (n + 3), n + 4))"
  by (simp add: eval_nat_numeral)

lemma retryOperation_counter: "n < snd (retryOperation operation r n)"
  by (induction r arbitrary: n) (auto simp: less_Suc_eq dest: Suc_lessD)

lemma retryOperation_fail_counter:
  "\<not> fst (retryOperation operation r n) \<Longrightarrow> snd (retryOperation operation r n) = n + Suc r"
  by (induction r arbitrary: n) (auto split: if_splits)

lemma submitOrder_eq:
  "submitOrder env ord st =
     (orderOk env st, st\<lparr>orders := orders st @ replicate (orderAttempts env st) ord\<rparr>)"
  by (simp add: submitOrder_def orderOk_def orderAttempts_def case_prod_beta)

lemma orderAttempts_pos: "0 < orderAttempts env st"
  using retryOperation_counter [of "length (orders st)" "orderAccepted env" 3]
  by (simp add: orderAttempts_def)

lemma orderAttempts_fail: "\<not> orderOk env st \<Longrightarrow> orderAttempts env st = 4"
  using retryOperation_fail_counter [of "orderAccepted env" 3 "length (orders st)"]
  by (simp add: orderAttempts_def orderOk_def)

lemma orderOk_frame [simp]:
  "orderOk env (st\<lparr>realBalance := a\<rparr>) = orderOk env st"
  "orderOk env (st\<lparr>fakeBalance := b\<rparr>) = orderOk env st"
  "orderOk env (st\<lparr>walletBalance := c\<rparr>) = orderOk env st"
  "orderOk env (st\<lparr>log := l\<rparr>) = orderOk env st"
  by (simp_all add: orderOk_def)

lemma orderAttempts_frame [simp]:
  "orderAttempts env (st\<lparr>realBalance := a\<rparr>) = orderAttempts env st"
  "orderAttempts env (st\<lparr>fakeBalance := b\<rparr>) = orderAttempts env st"
  "orderAttempts env (st\<lparr>walletBalance := c\<rparr>) = orderAttempts env st"
  "orderAttempts env (st\<lparr>log := l\<rparr>) = orderAttempts env st"
  by (simp_all add: orderAttempts_def)

subsection \<open>Unfolding for concrete inputs\<close>

lemmas example_defs = exampleEnv_def exampleState_def failingEnv_def

lemmas open_defs = placeFutureTrade_def placeSpotTrade_def submitOrder_def retryOperation_3
  getSpotTradingFee_def getFuturesTradingFee_def generateTradeId_def logEvent_def Let_def

lemmas close_defs = handleTradeClosure_def reallocate_def netPnl_def grossPnl_def exitFee_def
  updateLedgers_def settledRecord_def

lemmas settle_defs = reallocationDue_def netPnl_def grossPnl_def exitFee_def futureOpens_def
  futureTotalCost_def selectedBalance_def orderOk_def orderAttempts_def dbOk_def
  oppositeDirection_def openedFutureTrade_def getSpotTradingFee_def getFuturesTradingFee_def
  retryOperation_3 stopLossPercentage_def takeProfitPercentage_def

lemmas monitor_defs = monitorTrade_def updatePeak_def takeProfitReached_def stopLossHit_def
  maxDrawdownPrice_def maxSpotDrawdownPercentage_def

subsection \<open>What each step changes\<close>

lemma placeFutureTrade_history [simp]:
  "history (placeFutureTrade env e a d ty al st) = history st"
  by (simp add: placeFutureTrade_def Let_def submitOrder_eq logEvent_def)

lemma placeFutureTrade_dbAttempts [simp]:
  "dbAttempts (placeFutureTrade env e a d ty al st) = dbAttempts st"
  by (simp add: placeFutureTrade_def Let_def submitOrder_eq logEvent_def)

lemma placeFutureTrade_activeTrades:
  "activeTrades (placeFutureTrade env e a d ty al st) =
     activeTrades st @ (if futureOpens env e a ty st
                        then [openedFutureTrade env e a d ty al st] else [])"
  by (cases "ty = ''futures''")
     (simp_all add: placeFutureTrade_def Let_def submitOrder_eq logEvent_def futureOpens_def
        futureTotalCost_def selectedBalance_def openedFutureTrade_def generateTradeId_def
        not_less [symmetric])

lemma placeFutureTrade_orders:
  "orders (placeFutureTrade env e a d ty al st) =
     orders st @ (if futureTotalCost env e a ty \<le> selectedBalance ty st
                  then replicate (orderAttempts env st)
                         (FuturesOrder (if d = ''long'' then ''BUY'' else ''SELL'') a)
                  else [])"
  by (cases "ty = ''futures''")
     (simp_all add: placeFutureTrade_def Let_def submitOrder_eq logEvent_def
        futureTotalCost_def selectedBalance_def not_less [symmetric])


lemma futureOpens_log [simp]:
  "futureOpens env e a ty (logEvent ev st) = futureOpens env e a ty st"
  by (simp add: futureOpens_def logEvent_def selectedBalance_def)

lemma openedFutureTrade_log [simp]:
  "openedFutureTrade env e a d ty al (logEvent ev st) = openedFutureTrade env e a d ty al st"
  by (simp add: openedFutureTrade_def logEvent_def)

lemma logEvent_fields [simp]:
  "activeTrades (logEvent ev st) = activeTrades st"
  "history (logEvent ev st) = history st"
  "dbAttempts (logEvent ev st) = dbAttempts st"
  "orders (logEvent ev st) = orders st"
  "log (logEvent ev st) = log st @ [ev]"
  by (simp_all add: logEvent_def)

lemma reallocate_history [simp]: "history (reallocate env i p st) = history st"
  by (simp add: reallocate_def Let_def)

lemma reallocate_dbAttempts [simp]: "dbAttempts (reallocate env i p st) = dbAttempts st"
  by (simp add: reallocate_def Let_def)

lemma reallocate_activeTrades:
  "activeTrades (reallocate env i p st) =
     (if reallocationDue env (activeTrades st ! i) p
      then (activeTrades st @
              (if futureOpens env p (trade_amount (activeTrades st ! i))
                    (trade_type (activeTrades st ! i)) st
               then [openedFutureTrade env p (trade_amount (activeTrades st ! i))
                       (oppositeDirection (activeTrades st ! i))
                       (trade_type (activeTrades st ! i)) ''favorable'' st]
               else []))
           [i := (activeTrades st ! i)\<lparr>trade_isReallocated := True\<rparr>]
      else activeTrades st)"
  by (simp add: reallocate_def Let_def reallocationDue_def placeFutureTrade_activeTrades
      oppositeDirection_def)

lemma reallocate_orders:
  "orders (reallocate env i p st) =
     orders st @
       (if reallocationDue env (activeTrades st ! i) p \<and>
           futureTotalCost env p (trade_amount (activeTrades st ! i))
             (trade_type (activeTrades st ! i)) \<le> selectedBalance (trade_type (activeTrades st ! i)) st
        then replicate (orderAttempts env st)
               (FuturesOrder (if oppositeDirection (activeTrades st ! i) = ''long''
                              then ''BUY'' else ''SELL'')
                  (trade_amount (activeTrades st ! i)))
        else [])"
  by (simp add: reallocate_def Let_def reallocationDue_def placeFutureTrade_orders
      oppositeDirection_def selectedBalance_def logEvent_def orderAttempts_def)

lemma filter_update_same_id:
  assumes "i < length xs" and "trade_id t' = trade_id (xs ! i)"
  shows "filter (\<lambda>x. trade_id x \<noteq> trade_id (xs ! i)) (xs[i := t'])
           = filter (\<lambda>x. trade_id x \<noteq> trade_id (xs ! i)) xs"
proof -
  have "xs[i := t'] = take i xs @ t' # drop (Suc i) xs"
    using assms(1) by (rule upd_conv_take_nth_drop)
  moreover have "xs = take i xs @ xs ! i # drop (Suc i) xs"
    using assms(1) by (rule id_take_nth_drop)
  ultimately show ?thesis
    using assms(2) by (metis (mono_tags, lifting) filter.simps(2) filter_append)
qed

lemma updateLedgers_fields [simp]:
  "activeTrades (updateLedgers t pnl st) = activeTrades st"
  "history (updateLedgers t pnl st) = history st"
  "orders (updateLedgers t pnl st) = orders st"
  "log (updateLedgers t pnl st) = log st"
  by (simp_all add: updateLedgers_def Let_def)

lemma handleTradeClosure_settled:
  assumes "i < length (activeTrades st)" and "dbOk env st"
  shows "activeTrades (handleTradeClosure env i p st)
           = filter (\<lambda>x. trade_id x \<noteq> trade_id (activeTrades (reallocate env i p st) ! i))
               (activeTrades (reallocate env i p st))"
    and "history (handleTradeClosure env i p st)
           = history st @ [settledRecord (activeTrades (reallocate env i p st) ! i)
                             (netPnl env (activeTrades st ! i) p)]"
    and "orders (handleTradeClosure env i p st) = orders (reallocate env i p st)"
  using assms
  by (simp_all add: handleTradeClosure_def Let_def dbOk_def case_prod_beta)

lemma reallocate_nth:
  assumes "i < length (activeTrades st)"
  shows "activeTrades (reallocate env i p st) ! i
           = (activeTrades st ! i)\<lparr>trade_isReallocated :=
                reallocationDue env (activeTrades st ! i) p \<or> trade_isReallocated (activeTrades st ! i)\<rparr>"
  using assms by (auto simp: reallocate_activeTrades reallocationDue_def)

lemma updatePeak_fields [simp]:
  "trade_id (updatePeak p t) = trade_id t"
  "trade_entryPrice (updatePeak p t) = trade_entryPrice t"
  "trade_amount (updatePeak p t) = trade_amount t"
  "trade_direction (updatePeak p t) = trade_direction t"
  "trade_type (updatePeak p t) = trade_type t"
  "trade_leverage (updatePeak p t) = trade_leverage t"
  "trade_entryFee (updatePeak p t) = trade_entryFee t"
  "trade_takeProfit (updatePeak p t) = trade_takeProfit t"
  "trade_stopLoss (updatePeak p t) = trade_stopLoss t"
  "trade_allocation (updatePeak p t) = trade_allocation t"
  "trade_isReallocated (updatePeak p t) = trade_isReallocated t"
  by (simp_all add: updatePeak_def Let_def)

lemma netPnl_updatePeak [simp]: "netPnl env (updatePeak q t) p = netPnl env t p"
  by (simp add: netPnl_def grossPnl_def exitFee_def)

lemma updatePeak_ratchet: "ratchetStep t (updatePeak p t)"
  by (simp add: ratchetStep_def updatePeak_def Let_def)

lemma ratchetStep_refl: "ratchetStep t t"
  by (simp add: ratchetStep_def)



lemma placeFutureTrade_length:
  "length (activeTrades st) \<le> length (activeTrades (placeFutureTrade env e a d ty al st))"
  by (simp add: placeFutureTrade_activeTrades)

lemma reallocate_peak:
  assumes "i < length (activeTrades st)"
  shows "i < length (activeTrades (reallocate env i p st))"
    and "trade_peakProfit (activeTrades (reallocate env i p st) ! i)
           = trade_peakProfit (activeTrades st ! i)"
    and "trade_peakPrice (activeTrades (reallocate env i p st) ! i)
           = trade_peakPrice (activeTrades st ! i)"
  using assms by (simp_all add: reallocate_activeTrades reallocate_nth)

lemma handleTradeClosure_unsettled:
  assumes "i < length (activeTrades st)"
    and "\<not> settledIn st (handleTradeClosure env i p st)"
  shows "i < length (activeTrades (handleTradeClosure env i p st))"
    and "trade_peakProfit (activeTrades (handleTradeClosure env i p st) ! i)
           = trade_peakProfit (activeTrades st ! i)"
    and "trade_peakPrice (activeTrades (handleTradeClosure env i p st) ! i)
           = trade_peakPrice (activeTrades st ! i)"
proof -
  have nodb: "\<not> dbOk env st"
  proof
    assume "dbOk env st"
    from handleTradeClosure_settled(2) [OF assms(1) this, of p] assms(2)
    show False by (simp add: settledIn_def)
  qed
  then have eq: "activeTrades (handleTradeClosure env i p st) = activeTrades (reallocate env i p st)"
    using assms(1) by (simp add: handleTradeClosure_def Let_def dbOk_def case_prod_beta)
  show "i < length (activeTrades (handleTradeClosure env i p st))"
    and "trade_peakProfit (activeTrades (handleTradeClosure env i p st) ! i)
           = trade_peakProfit (activeTrades st ! i)"
    and "trade_peakPrice (activeTrades (handleTradeClosure env i p st) ! i)
           = trade_peakPrice (activeTrades st ! i)"
    using reallocate_peak [OF assms(1), of env p] by (simp_all add: eq)
qed

lemma settledIn_frame [simp]:
  "settledIn (logEvent ev st) st' = settledIn st st'"
  "settledIn st (logEvent ev st') = settledIn st st'"
  "settledIn (st\<lparr>activeTrades := xs\<rparr>) st' = settledIn st st'"
  by (simp_all add: settledIn_def)

lemma monitorTrade_unsettled:
  assumes "i < length (activeTrades st)"
    and "\<not> settledIn st (monitorTrade env i price st)"
  shows "i < length (activeTrades (monitorTrade env i price st)) \<and>
         ratchetStep (activeTrades st ! i) (activeTrades (monitorTrade env i price st) ! i)"
proof (cases price)
  case None
  then show ?thesis
    using assms(1) by (simp add: monitorTrade_def ratchetStep_refl)
next
  case (Some p)
  let ?t = "updatePeak p (activeTrades st ! i)"
  let ?st1 = "st\<lparr>activeTrades := (activeTrades st)[i := ?t]\<rparr>"
  have r: "ratchetStep (activeTrades st ! i) ?t"
    by (rule updatePeak_ratchet)
  have closure: "i < length (activeTrades (handleTradeClosure env i p (logEvent ev ?st1))) \<and>
      ratchetStep (activeTrades st ! i)
        (activeTrades (handleTradeClosure env i p (logEvent ev ?st1)) ! i)"
    if "\<not> settledIn st (handleTradeClosure env i p (logEvent ev ?st1))" for ev
  proof -
    have len: "i < length (activeTrades (logEvent ev ?st1))"
      using assms(1) by simp
    have uns: "\<not> settledIn (logEvent ev ?st1) (handleTradeClosure env i p (logEvent ev ?st1))"
      using that by simp
    from handleTradeClosure_unsettled [OF len uns] r assms(1)
    show ?thesis by (simp add: ratchetStep_def)
  qed
  show ?thesis
  proof (cases "takeProfitReached ?t p")
    case True
    then show ?thesis
      using Some assms closure by (simp add: monitorTrade_def Let_def)
  next
    case tp: False
    show ?thesis
    proof (cases "stopLossHit ?t p")
      case True
      then show ?thesis
        using Some tp assms closure by (simp add: monitorTrade_def Let_def)
    next
      case False
      then show ?thesis
        using Some tp assms(1) r by (simp add: monitorTrade_def Let_def)
    qed
  qed
qed

lemma ratchetStep_trans: "ratchetStep a b \<Longrightarrow> ratchetStep b c \<Longrightarrow> ratchetStep a c"
  by (auto simp: ratchetStep_def)

lemma monitorTicks_ratchet:
  "i < length (activeTrades st) \<Longrightarrow>
   successively ratchetStep (activeTrades st ! i # monitorTicks env i prices st) \<and>
   (\<forall>x \<in> set (monitorTicks env i prices st). ratchetStep (activeTrades st ! i) x) \<and>
   sorted (map trade_peakProfit (activeTrades st ! i # monitorTicks env i prices st))"
proof (induction prices arbitrary: st)
  case Nil
  then show ?case by simp
next
  case (Cons price prices)
  let ?st' = "monitorTrade env i price st"
  show ?case
  proof (cases "settledIn st ?st'")
    case True
    then show ?thesis by simp
  next
    case False
    from monitorTrade_unsettled [OF Cons.prems False]
    have len: "i < length (activeTrades ?st')"
      and step: "ratchetStep (activeTrades st ! i) (activeTrades ?st' ! i)"
      by simp_all
    from Cons.IH [OF len]
    have ih: "successively ratchetStep (activeTrades ?st' ! i # monitorTicks env i prices ?st')"
      and all: "\<forall>x \<in> set (monitorTicks env i prices ?st'). ratchetStep (activeTrades ?st' ! i) x"
      and srt: "sorted (map trade_peakProfit (activeTrades ?st' ! i # monitorTicks env i prices ?st'))"
      by simp_all
    have all': "\<forall>x \<in> set (activeTrades ?st' ! i # monitorTicks env i prices ?st').
                  ratchetStep (activeTrades st ! i) x"
      using step all by (auto intro: ratchetStep_trans)
    then have le: "\<forall>x \<in> set (activeTrades ?st' ! i # monitorTicks env i prices ?st').
                  trade_peakProfit (activeTrades st ! i) \<le> trade_peakProfit x"
      by (simp add: ratchetStep_def)
    show ?thesis
      using False step ih all' srt le by (simp add: Let_def)
  qed
qed

subsection \<open>The concrete positions\<close>

lemma shortOpened_eq:
  "shortOpened = exampleState\<lparr>fakeBalance := 900,
     activeTrades := [openedFutureTrade exampleEnv 100 1 ''short'' ''fake'' ''unfavorable'' exampleState],
     orders := [FuturesOrder ''SELL'' 1], idsGenerated := 1\<rparr>"
  by (simp add: shortOpened_def example_defs open_defs openedFutureTrade_def)

lemma longOpened_eq:
  "longOpened = exampleState\<lparr>fakeBalance := 900,
     activeTrades := [openedFutureTrade exampleEnv 100 1 ''long'' ''fake'' ''favorable'' exampleState],
     orders := [FuturesOrder ''BUY'' 1], idsGenerated := 1\<rparr>"
  by (simp add: longOpened_def example_defs open_defs openedFutureTrade_def)


subsection \<open>Opening a position\<close>



lemma example_orderOk: "orderOk exampleEnv exampleState"
  by (simp add: orderOk_def exampleEnv_def retryOperation_3)

lemma example_orderAttempts: "orderAttempts exampleEnv exampleState = 1"
  by (simp add: orderAttempts_def exampleEnv_def exampleState_def retryOperation_3)

lemma failing_orderOk: "\<not> orderOk failingEnv exampleState"
  by (simp add: orderOk_def failingEnv_def exampleEnv_def retryOperation_3)

text \<open>
  Claim C10. A spot position that is opened carries the stop-loss and take-profit of the
  long formulas whatever the direction argument is: stopLoss = entryPrice * (1 - 1.5/100)
  and takeProfit = entryPrice * (1 + 6/100), also for direction short. The side of the
  submitted order does follow the argument: BUY for long, SELL otherwise.
\<close>

theorem spot_levels_ignore_direction:
  assumes "spotTotalCost env entryPrice amount \<le> selectedBalance type st"
    and "orderOk env st"
  shows "length (activeTrades (placeSpotTrade env entryPrice amount type direction st))
           = Suc (length (activeTrades st)) \<and>
         trade_stopLoss (last (activeTrades (placeSpotTrade env entryPrice amount type direction st)))
           = entryPrice * (1 - (3 / 2) / 100) \<and>
         trade_takeProfit (last (activeTrades (placeSpotTrade env entryPrice amount type direction st)))
           = entryPrice * (1 + 6 / 100) \<and>
         trade_direction (last (activeTrades (placeSpotTrade env entryPrice amount type direction st)))
           = (if direction = ''long'' then ''long'' else ''short'') \<and>
         orders (placeSpotTrade env entryPrice amount type direction st)
           = orders st @ replicate (orderAttempts env st)
               (SpotOrder (if direction = ''long'' then ''BUY'' else ''SELL'') amount) \<and>
         0 < orderAttempts env st"
  using assms orderAttempts_pos [of env st]
  by (simp add: placeSpotTrade_def spotTotalCost_def selectedBalance_def Let_def
      submitOrder_eq stopLossPercentage_def takeProfitPercentage_def not_less [symmetric])

theorem spot_levels_ignore_direction_witness:
  "spotTotalCost exampleEnv 100 1 \<le> selectedBalance ''fake'' exampleState \<and>
   orderOk exampleEnv exampleState \<and>
   trade_stopLoss (last (activeTrades (placeSpotTrade exampleEnv 100 1 ''fake'' ''short'' exampleState)))
     = 197 / 2 \<and>
   trade_takeProfit (last (activeTrades (placeSpotTrade exampleEnv 100 1 ''fake'' ''short'' exampleState)))
     = 106 \<and>
   trade_direction (last (activeTrades (placeSpotTrade exampleEnv 100 1 ''fake'' ''short'' exampleState)))
     = ''short'' \<and>
   orders (placeSpotTrade exampleEnv 100 1 ''fake'' ''short'' exampleState) = [SpotOrder ''SELL'' 1]"
proof -
  have c: "spotTotalCost exampleEnv 100 1 \<le> selectedBalance ''fake'' exampleState"
    by (simp add: spotTotalCost_def selectedBalance_def exampleEnv_def exampleState_def
        getSpotTradingFee_def)
  have o: "orders exampleState = []"
    by (simp add: exampleState_def)
  from c o example_orderOk example_orderAttempts show ?thesis
    using spot_levels_ignore_direction [OF c example_orderOk, where direction = "''short''"]
    by simp
qed

text \<open>
  Claim C1, as amended. In real mode the market order is submitted after the balance
  debit. When the submission fails on all four attempts, the open is aborted only in
  that no position is added to the active list: the debit is not rolled back, the real
  ledger stays reduced by the total cost and, for spot, the wallet ledger by the amount.
\<close>

theorem order_failure_keeps_debit:
  assumes "\<not> orderOk env st"
  shows "(futureTotalCost env entryPrice amount ''real'' \<le> realBalance st \<longrightarrow>
            placeFutureTrade env entryPrice amount direction ''real'' allocation st
              = st\<lparr>realBalance := realBalance st - futureTotalCost env entryPrice amount ''real'',
                   orders := orders st @ replicate 4
                     (FuturesOrder (if direction = ''long'' then ''BUY'' else ''SELL'') amount),
                   log := log st @ [ErrorPlacingFuturesTrade]\<rparr>) \<and>
         (spotTotalCost env entryPrice amount \<le> realBalance st \<longrightarrow>
            placeSpotTrade env entryPrice amount ''real'' direction st
              = st\<lparr>realBalance := realBalance st - spotTotalCost env entryPrice amount,
                   walletBalance := walletBalance st - amount,
                   orders := orders st @ replicate 4
                     (SpotOrder (if direction = ''long'' then ''BUY'' else ''SELL'') amount),
                   log := log st @ [ErrorPlacingSpotTrade]\<rparr>)"
  using assms orderAttempts_fail [of env st]
  by (simp add: placeFutureTrade_def placeSpotTrade_def futureTotalCost_def spotTotalCost_def
      Let_def submitOrder_eq logEvent_def not_less [symmetric])

theorem order_failure_keeps_debit_witness:
  "\<not> orderOk failingEnv exampleState \<and>
   futureTotalCost failingEnv 100 1 ''real'' \<le> realBalance exampleState \<and>
   spotTotalCost failingEnv 100 1 \<le> realBalance exampleState \<and>
   placeFutureTrade failingEnv 100 1 ''long'' ''real'' ''favorable'' exampleState
     = exampleState\<lparr>realBalance := 900, orders := replicate 4 (FuturesOrder ''BUY'' 1),
                    log := [ErrorPlacingFuturesTrade]\<rparr> \<and>
   placeSpotTrade failingEnv 100 1 ''real'' ''long'' exampleState
     = exampleState\<lparr>realBalance := 900, walletBalance := 999,
                    orders := replicate 4 (SpotOrder ''BUY'' 1),
                    log := [ErrorPlacingSpotTrade]\<rparr>"
proof -
  have f: "futureTotalCost failingEnv 100 1 ''real'' = 100"
    by (simp add: futureTotalCost_def failingEnv_def exampleEnv_def getSpotTradingFee_def)
  have s: "spotTotalCost failingEnv 100 1 = 100"
    by (simp add: spotTotalCost_def failingEnv_def exampleEnv_def getSpotTradingFee_def)
  have e: "realBalance exampleState = 1000" "walletBalance exampleState = 1000"
    "orders exampleState = []" "log exampleState = []"
    by (simp_all add: exampleState_def)
  from f s e failing_orderOk show ?thesis
    using order_failure_keeps_debit [OF failing_orderOk, where entryPrice = 100 and amount = 1
        and direction = "''long''" and allocation = "''favorable''"]
    by simp
qed

text \<open>
  Claim C1 as stated fails: with an exchange that refuses every order, a real open of one
  unit at 100 leaves the real ledger at 900 instead of 1000 and registers no position.
\<close>

theorem order_failure_rollback_counterexample:
  "\<not> orderOk failingEnv exampleState \<and>
   realBalance exampleState = 1000 \<and>
   realBalance (placeFutureTrade failingEnv 100 1 ''long'' ''real'' ''favorable'' exampleState) = 900 \<and>
   activeTrades (placeFutureTrade failingEnv 100 1 ''long'' ''real'' ''favorable'' exampleState) = [] \<and>
   realBalance (placeSpotTrade failingEnv 100 1 ''real'' ''long'' exampleState) = 900 \<and>
   walletBalance (placeSpotTrade failingEnv 100 1 ''real'' ''long'' exampleState) = 999 \<and>
   activeTrades (placeSpotTrade failingEnv 100 1 ''real'' ''long'' exampleState) = []"
  by (simp add: orderOk_def failingEnv_def exampleEnv_def exampleState_def retryOperation_3
      placeFutureTrade_def placeSpotTrade_def Let_def submitOrder_def getSpotTradingFee_def
      logEvent_def)

text \<open>
  Claim C3, evaluated. \<^verbatim>\<open>placeFutureTrade\<close> tests its \<^verbatim>\<open>type\<close> argument against the
  literal futures, but the engine passes the mode there (real or fake). A real futures
  open of one unit at 100 therefore debits the full notional 100, not the margin
  100 / 5 = 20, and the stored position has leverage 1, not 5. Only the literal futures
  reaches the margin branch, and it debits the simulated ledger.
\<close>

theorem futures_open_evaluation:
  "realBalance exampleState = 1000 \<and>
   realBalance (placeFutureTrade exampleEnv 100 1 ''long'' ''real'' ''favorable'' exampleState) = 900 \<and>
   map trade_leverage
     (activeTrades (placeFutureTrade exampleEnv 100 1 ''long'' ''real'' ''favorable'' exampleState)) = [1] \<and>
   realBalance (placeFutureTrade exampleEnv 100 1 ''long'' ''futures'' ''favorable'' exampleState) = 1000 \<and>
   fakeBalance (placeFutureTrade exampleEnv 100 1 ''long'' ''futures'' ''favorable'' exampleState) = 980 \<and>
   map trade_leverage
     (activeTrades (placeFutureTrade exampleEnv 100 1 ''long'' ''futures'' ''favorable'' exampleState)) = [5]"
  by (simp add: example_defs open_defs leverage_def)

subsection \<open>Settlement\<close>

text \<open>
  Claim C2, evaluated. A simulated position of one unit opened at 100 and closed at 100
  with every fee rate zero: the open debits entryPrice * amount = 100, the settlement
  credits netPnl + amount = 1, and the simulated ledger ends at 901 instead of 1000.
\<close>

theorem simulated_roundtrip_evaluation:
  "fakeBalance exampleState = 1000 \<and>
   fakeBalance (placeFutureTrade exampleEnv 100 1 ''long'' ''fake'' ''favorable'' exampleState) = 900 \<and>
   fakeBalance (handleTradeClosure exampleEnv 0 100
     (placeFutureTrade exampleEnv 100 1 ''long'' ''fake'' ''favorable'' exampleState)) = 901 \<and>
   activeTrades (handleTradeClosure exampleEnv 0 100
     (placeFutureTrade exampleEnv 100 1 ''long'' ''fake'' ''favorable'' exampleState)) = []"
  by (simp add: example_defs open_defs close_defs)

text \<open>
  Claim C4, evaluated. A position opened by \<^verbatim>\<open>placeSpotTrade\<close> stores the mode in its
  \<^verbatim>\<open>type\<close> field, so its settlement takes the branch of that mode: the wallet ledger,
  debited by the amount at the open, is not credited back (it stays at 999), and the
  notional entryPrice * amount = 100 is not credited to the simulated ledger, which gets
  netPnl + amount = 1.
\<close>

theorem spot_settlement_evaluation:
  "walletBalance exampleState = 1000 \<and> fakeBalance exampleState = 1000 \<and>
   walletBalance (placeSpotTrade exampleEnv 100 1 ''fake'' ''long'' exampleState) = 999 \<and>
   fakeBalance (placeSpotTrade exampleEnv 100 1 ''fake'' ''long'' exampleState) = 900 \<and>
   walletBalance (handleTradeClosure exampleEnv 0 100
     (placeSpotTrade exampleEnv 100 1 ''fake'' ''long'' exampleState)) = 999 \<and>
   fakeBalance (handleTradeClosure exampleEnv 0 100
     (placeSpotTrade exampleEnv 100 1 ''fake'' ''long'' exampleState)) = 901 \<and>
   spotPnL (handleTradeClosure exampleEnv 0 100
     (placeSpotTrade exampleEnv 100 1 ''fake'' ''long'' exampleState)) = 0 \<and>
   activeTrades (handleTradeClosure exampleEnv 0 100
     (placeSpotTrade exampleEnv 100 1 ''fake'' ''long'' exampleState)) = []"
  by (simp add: example_defs open_defs close_defs)

text \<open>
  Claim C6, as amended. When a position settles with netPnl < 0, allocation unfavorable and
  isReallocated false, \<^verbatim>\<open>placeFutureTrade\<close> is called once, at the exit price, with the
  same amount, the opposite direction, the same type and allocation favorable, and the
  closed position is recorded with isReallocated true. That call adds one position to the
  active list when its total cost does not exceed the balance of the selected ledger and
  the order is accepted, and none otherwise. A position that is favorable, or already
  reallocated, or closes with netPnl \<ge> 0 triggers no reallocation: no order is submitted
  and no position is added. The theorem is about a settlement whose trade record is written.
\<close>

theorem reallocation_rule:
  assumes "i < length (activeTrades st)" and "dbOk env st"
  shows "activeTrades (handleTradeClosure env i p st)
           = filter (\<lambda>x. trade_id x \<noteq> trade_id (activeTrades st ! i))
               (activeTrades st @
                  (if reallocationDue env (activeTrades st ! i) p \<and>
                      futureOpens env p (trade_amount (activeTrades st ! i))
                        (trade_type (activeTrades st ! i)) st
                   then [openedFutureTrade env p (trade_amount (activeTrades st ! i))
                           (oppositeDirection (activeTrades st ! i))
                           (trade_type (activeTrades st ! i)) ''favorable'' st]
                   else [])) \<and>
         rec_isReallocated (last (history (handleTradeClosure env i p st)))
           = (reallocationDue env (activeTrades st ! i) p \<or> trade_isReallocated (activeTrades st ! i)) \<and>
         orders (handleTradeClosure env i p st)
           = orders st @
               (if reallocationDue env (activeTrades st ! i) p \<and>
                   futureTotalCost env p (trade_amount (activeTrades st ! i))
                     (trade_type (activeTrades st ! i))
                     \<le> selectedBalance (trade_type (activeTrades st ! i)) st
                then replicate (orderAttempts env st)
                       (FuturesOrder (if trade_direction (activeTrades st ! i) = ''long''
                                      then ''SELL'' else ''BUY'')
                          (trade_amount (activeTrades st ! i)))
                else []) \<and>
         trade_direction (openedFutureTrade env p (trade_amount (activeTrades st ! i))
             (oppositeDirection (activeTrades st ! i)) (trade_type (activeTrades st ! i))
             ''favorable'' st)
           = (if trade_direction (activeTrades st ! i) = ''long'' then ''short'' else ''long'') \<and>
         trade_amount (openedFutureTrade env p (trade_amount (activeTrades st ! i))
             (oppositeDirection (activeTrades st ! i)) (trade_type (activeTrades st ! i))
             ''favorable'' st)
           = trade_amount (activeTrades st ! i) \<and>
         trade_type (openedFutureTrade env p (trade_amount (activeTrades st ! i))
             (oppositeDirection (activeTrades st ! i)) (trade_type (activeTrades st ! i))
             ''favorable'' st)
           = trade_type (activeTrades st ! i) \<and>
         trade_allocation (openedFutureTrade env p (trade_amount (activeTrades st ! i))
             (oppositeDirection (activeTrades st ! i)) (trade_type (activeTrades st ! i))
             ''favorable'' st)
           = ''favorable''"
proof -
  let ?t = "activeTrades st ! i"
  define xs where "xs = activeTrades st @
    (if reallocationDue env ?t p \<and> futureOpens env p (trade_amount ?t) (trade_type ?t) st
     then [openedFutureTrade env p (trade_amount ?t) (oppositeDirection ?t)
             (trade_type ?t) ''favorable'' st]
     else [])"
  have nth: "activeTrades (reallocate env i p st) ! i
               = ?t\<lparr>trade_isReallocated := reallocationDue env ?t p \<or> trade_isReallocated ?t\<rparr>"
    using assms(1) by (rule reallocate_nth)
  have len: "i < length xs"
    using assms(1) by (simp add: xs_def)
  have at: "xs ! i = ?t"
    using assms(1) by (simp add: xs_def nth_append)
  have act: "activeTrades (reallocate env i p st)
               = (if reallocationDue env ?t p
                  then xs[i := ?t\<lparr>trade_isReallocated := True\<rparr>] else xs)"
    by (simp add: reallocate_activeTrades xs_def)
  have "filter (\<lambda>x. trade_id x \<noteq> trade_id (xs ! i)) (xs[i := ?t\<lparr>trade_isReallocated := True\<rparr>])
          = filter (\<lambda>x. trade_id x \<noteq> trade_id (xs ! i)) xs"
    using len by (rule filter_update_same_id) (simp add: at)
  then have flt: "filter (\<lambda>x. trade_id x \<noteq> trade_id ?t) (activeTrades (reallocate env i p st))
               = filter (\<lambda>x. trade_id x \<noteq> trade_id ?t) xs"
    by (simp add: act at)
  have a: "activeTrades (handleTradeClosure env i p st)
             = filter (\<lambda>x. trade_id x \<noteq> trade_id ?t) xs"
    using handleTradeClosure_settled(1) [OF assms, of p] flt by (simp add: nth)
  have h: "rec_isReallocated (last (history (handleTradeClosure env i p st)))
             = (reallocationDue env ?t p \<or> trade_isReallocated ?t)"
    using handleTradeClosure_settled(2) [OF assms, of p] by (simp add: nth settledRecord_def)
  have o: "orders (handleTradeClosure env i p st)
             = orders st @
                 (if reallocationDue env ?t p \<and>
                     futureTotalCost env p (trade_amount ?t) (trade_type ?t)
                       \<le> selectedBalance (trade_type ?t) st
                  then replicate (orderAttempts env st)
                         (FuturesOrder (if trade_direction ?t = ''long'' then ''SELL'' else ''BUY'')
                            (trade_amount ?t))
                  else [])"
    using handleTradeClosure_settled(3) [OF assms, of p]
    by (simp add: reallocate_orders oppositeDirection_def)
  show ?thesis
    using a h o by (simp add: openedFutureTrade_def oppositeDirection_def xs_def)
qed

theorem reallocation_rule_witness:
  "0 < length (activeTrades shortOpened) \<and> dbOk exampleEnv shortOpened \<and>
   reallocationDue exampleEnv (activeTrades shortOpened ! 0) 101 \<and>
   map trade_direction (activeTrades (handleTradeClosure exampleEnv 0 101 shortOpened)) = [''long''] \<and>
   map trade_allocation (activeTrades (handleTradeClosure exampleEnv 0 101 shortOpened)) = [''favorable''] \<and>
   map trade_amount (activeTrades (handleTradeClosure exampleEnv 0 101 shortOpened)) = [1] \<and>
   rec_isReallocated (last (history (handleTradeClosure exampleEnv 0 101 shortOpened))) \<and>
   orders (handleTradeClosure exampleEnv 0 101 shortOpened)
     = [FuturesOrder ''SELL'' 1, FuturesOrder ''BUY'' 1] \<and>
   0 < length (activeTrades longOpened) \<and> dbOk exampleEnv longOpened \<and>
   \<not> reallocationDue exampleEnv (activeTrades longOpened ! 0) 99 \<and>
   activeTrades (handleTradeClosure exampleEnv 0 99 longOpened) = [] \<and>
   \<not> rec_isReallocated (last (history (handleTradeClosure exampleEnv 0 99 longOpened))) \<and>
   orders (handleTradeClosure exampleEnv 0 99 longOpened) = [FuturesOrder ''BUY'' 1]"
proof -
  have s: "0 < length (activeTrades shortOpened)" "dbOk exampleEnv shortOpened"
    by (simp_all add: shortOpened_eq dbOk_def example_defs retryOperation_3)
  have l: "0 < length (activeTrades longOpened)" "dbOk exampleEnv longOpened"
    by (simp_all add: longOpened_eq dbOk_def example_defs retryOperation_3)
  show ?thesis
    using s l reallocation_rule [OF s, of 101] reallocation_rule [OF l, of 99]
    by (simp add: shortOpened_eq longOpened_eq settle_defs example_defs)
qed

text \<open>
  Claim C6 as stated fails: a short unfavorable position of ten units opened at 100 takes
  the whole simulated balance; when it closes at 101 with a loss the reallocation is
  attempted before the settlement credits the ledger, is rejected for insufficient
  balance, and no new position is opened, while the closed position is recorded as
  reallocated.
\<close>

theorem reallocation_rule_counterexample:
  "reallocationDue exampleEnv
     (activeTrades (placeFutureTrade exampleEnv 100 10 ''short'' ''fake'' ''unfavorable'' exampleState) ! 0)
     101 \<and>
   fakeBalance (placeFutureTrade exampleEnv 100 10 ''short'' ''fake'' ''unfavorable'' exampleState) = 0 \<and>
   activeTrades (handleTradeClosure exampleEnv 0 101
     (placeFutureTrade exampleEnv 100 10 ''short'' ''fake'' ''unfavorable'' exampleState)) = [] \<and>
   map rec_isReallocated (history (handleTradeClosure exampleEnv 0 101
     (placeFutureTrade exampleEnv 100 10 ''short'' ''fake'' ''unfavorable'' exampleState))) = [True] \<and>
   orders (handleTradeClosure exampleEnv 0 101
     (placeFutureTrade exampleEnv 100 10 ''short'' ''fake'' ''unfavorable'' exampleState))
     = [FuturesOrder ''SELL'' 10]"
  by (simp add: example_defs open_defs close_defs reallocationDue_def)

subsection \<open>Monitoring\<close>



text \<open>
  Claim C8. The peak update of a tick never lowers peakProfit and changes peakPrice only
  when peakProfit strictly rises, and a strictly higher peakProfit comes with peakPrice set
  to the price of that tick; over every sequence of observed prices (a failed price fetch
  included) applied by the monitor to an open position, each tick is such a step, so
  peakProfit is non-decreasing along the whole sequence.
\<close>

theorem peak_ratchet:
  assumes "i < length (activeTrades st)"
  shows "ratchetStep t (updatePeak p t) \<and>
         (trade_peakProfit t < trade_peakProfit (updatePeak p t) \<longrightarrow>
            trade_peakProfit (updatePeak p t) = grossPnl t p \<and>
            trade_peakPrice (updatePeak p t) = p) \<and>
         successively ratchetStep (activeTrades st ! i # monitorTicks env i prices st) \<and>
         sorted (map trade_peakProfit (activeTrades st ! i # monitorTicks env i prices st))"
proof -
  have "trade_peakProfit t < trade_peakProfit (updatePeak p t) \<longrightarrow>
          trade_peakProfit (updatePeak p t) = grossPnl t p \<and>
          trade_peakPrice (updatePeak p t) = p"
    by (simp add: updatePeak_def Let_def)
  then show ?thesis
    using monitorTicks_ratchet [OF assms, of env prices] updatePeak_ratchet [of t p]
    by simp
qed

theorem peak_ratchet_witness:
  "0 < length (activeTrades longOpened) \<and>
   trade_peakProfit (activeTrades longOpened ! 0)
     < trade_peakProfit (updatePeak 102 (activeTrades longOpened ! 0)) \<and>
   trade_peakPrice (updatePeak 102 (activeTrades longOpened ! 0)) = 102 \<and>
   map trade_peakProfit (activeTrades longOpened ! 0 #
      monitorTicks exampleEnv 0 [Some 102, None, Some 101, Some 104] longOpened) = [0, 2, 2, 2, 4] \<and>
   map trade_peakPrice (activeTrades longOpened ! 0 #
      monitorTicks exampleEnv 0 [Some 102, None, Some 101, Some 104] longOpened)
      = [100, 102, 102, 102, 104] \<and>
   successively ratchetStep (activeTrades longOpened ! 0 #
      monitorTicks exampleEnv 0 [Some 102, None, Some 101, Some 104] longOpened) \<and>
   sorted (map trade_peakProfit (activeTrades longOpened ! 0 #
      monitorTicks exampleEnv 0 [Some 102, None, Some 101, Some 104] longOpened))"
proof -
  have l: "0 < length (activeTrades longOpened)"
    by (simp add: longOpened_eq)
  have u: "trade_peakProfit (activeTrades longOpened ! 0)
             < trade_peakProfit (updatePeak 102 (activeTrades longOpened ! 0))"
    by (simp add: longOpened_eq updatePeak_def grossPnl_def openedFutureTrade_def Let_def)
  have m: "map trade_peakProfit (activeTrades longOpened ! 0 #
      monitorTicks exampleEnv 0 [Some 102, None, Some 101, Some 104] longOpened) = [0, 2, 2, 2, 4]"
    "map trade_peakPrice (activeTrades longOpened ! 0 #
      monitorTicks exampleEnv 0 [Some 102, None, Some 101, Some 104] longOpened)
      = [100, 102, 102, 102, 104]"
    by (simp_all add: longOpened_eq example_defs monitor_defs settledIn_def logEvent_def
        grossPnl_def openedFutureTrade_def stopLossPercentage_def takeProfitPercentage_def
        getSpotTradingFee_def Let_def)
  show ?thesis
    using l u m peak_ratchet [OF l, of "activeTrades longOpened ! 0" 102 exampleEnv
        "[Some 102, None, Some 101, Some 104]"]
    by blast
qed

subsection \<open>Probability\<close>

lemma calculateProbability_bounds:
  "0 \<le> calculateProbability rsi macd sma ema stochastic atr bollinger baseProbability"
  "calculateProbability rsi macd sma ema stochastic atr bollinger baseProbability \<le> 100"
  by (simp_all add: calculateProbability_def Let_def)

text \<open>
  Claim C5, as amended. The result of \<^verbatim>\<open>calculateProbability\<close> lies in [0, 100] for every
  indicator snapshot and base probability. The session dampening of \<^verbatim>\<open>checkPrices\<close>
  subtracts a flat 5 after that clamp, when the accumulator exceeds 20, and does not clamp
  again: the probability it produces lies in [-5, 100].
\<close>

theorem probability_bounds:
  "0 \<le> calculateProbability rsi macd sma ema stochastic atr bollinger base \<and>
   calculateProbability rsi macd sma ema stochastic atr bollinger base \<le> 100 \<and>
   adjustedProbability env rsi macd sma ema stochastic atr bollinger base st
     = calculateProbability rsi macd sma ema stochastic atr bollinger base
       - (if cumulativeProbabilityChange
               (snd (dampenProbability env
                  (calculateProbability rsi macd sma ema stochastic atr bollinger base) base st)) > 20
          then 5 else 0) \<and>
   - 5 \<le> adjustedProbability env rsi macd sma ema stochastic atr bollinger base st \<and>
   adjustedProbability env rsi macd sma ema stochastic atr bollinger base st \<le> 100"
  using calculateProbability_bounds [of rsi macd sma ema stochastic atr bollinger base]
  by (simp add: adjustedProbability_def dampenProbability_def Let_def logEvent_def)

text \<open>
  Claim C5 as stated fails: with base probability 0 the clamped probability is 0, and with
  the accumulator at 25 inside the 15-minute window the dampened probability is -5.
\<close>

theorem probability_bounds_counterexample:
  "calculateProbability 50 neutralMacd 100 100 neutralStochastic 0 neutralBollinger 0 = 0 \<and>
   adjustedProbability (exampleEnv\<lparr>now := 1000\<rparr>) 50 neutralMacd 100 100 neutralStochastic 0
     neutralBollinger 0 (exampleState\<lparr>cumulativeProbabilityChange := 25\<rparr>) = - 5"
  by (simp add: adjustedProbability_def dampenProbability_def calculateProbability_def Let_def
      logEvent_def example_defs neutralMacd_def neutralStochastic_def neutralBollinger_def)

end
